theory Spec2Isabelle
  imports Complex_Main
begin

section \<open>Data model of the generated retrieval server\<close>

text \<open>
  The generator script \<^verbatim>\<open>create_rag.py\<close> writes a FastAPI server whose handlers
  talk to two external collaborators: the embedding provider (\<^verbatim>\<open>openai\<close>) and the
  vector store (\<^verbatim>\<open>qdrant_client\<close>). Neither is part of the repository, so both are
  parameters of the model. Python floats are modelled as \<open>real\<close>, Python strings as
  \<open>string\<close>, and an exception that leaves a handler as the \<open>Inl\<close> branch of a sum.
\<close>

type_synonym vector = "real list"

text \<open>A payload is a Python dict with string keys; insertion order is kept.\<close>

type_synonym payload = "(string \<times> string) list"

datatype py_exception =
    HTTPException (status_code: int) (detail: string)
  | KeyError string
  | ClientError string

text \<open>
  \<open>str(e)\<close>, as used by the f-string of the startup handler. An exception of a client
  prints as its message; a KeyError prints the key between single quotes; an
  HTTPException built with keyword arguments, as the handlers build it, has no positional
  argument and prints as the empty string.
\<close>

fun exception_str :: "py_exception \<Rightarrow> string" where
  "exception_str (HTTPException c d) = []"
| "exception_str (KeyError k) = CHR 0x27 # k @ [CHR 0x27]"
| "exception_str (ClientError m) = m"

datatype Distance = COSINE | EUCLID | DOT

record VectorParams =
  vp_size :: int
  vp_distance :: Distance

record CollectionDescription =
  cd_name :: string

record PointStruct =
  point_id :: string
  point_vector :: vector
  point_payload :: payload

record ScoredPoint =
  hit_id :: string
  hit_score :: real
  hit_payload :: payload

text \<open>
  The provider's answer: \<^verbatim>\<open>response.data\<close> is a list whose items carry an
  \<^verbatim>\<open>embedding\<close>; only that field is read.
\<close>

record EmbeddingResponse =
  resp_data :: "vector list"

text \<open>
  The vector-store client. Its store is a state of type \<open>'s\<close>; a call either raises
  or succeeds. \<^verbatim>\<open>get_collections\<close> and \<^verbatim>\<open>search\<close> only read the store.
\<close>

record 's QdrantClient =
  client_get_collections :: "'s \<Rightarrow> py_exception + CollectionDescription list"
  client_create_collection :: "string \<Rightarrow> VectorParams \<Rightarrow> 's \<Rightarrow> py_exception + 's"
  client_upsert :: "string \<Rightarrow> PointStruct list \<Rightarrow> 's \<Rightarrow> py_exception + 's"
  client_search :: "string \<Rightarrow> vector \<Rightarrow> int \<Rightarrow> 's \<Rightarrow> py_exception + ScoredPoint list"

text \<open>
  The collaborators of one server process: \<^verbatim>\<open>openai.Embedding.acreate(model, input)\<close>,
  the store client, and \<^verbatim>\<open>uuid.uuid4()\<close> as the sequence of values it yields
  (\<open>uuid4 n\<close> is the string of the \<open>n\<close>-th draw). Every handler calls the provider at
  most once, so a function of the request covers a provider that answers differently
  from one request to the next.
\<close>

record 's collaborators =
  openai_acreate :: "string \<Rightarrow> string \<Rightarrow> py_exception + EmbeddingResponse"
  client :: "'s QdrantClient"
  uuid4 :: "nat \<Rightarrow> string"

text \<open>Every call to a collaborator or to the UUID generator, in the order made.\<close>

datatype call =
    EmbeddingAcreate string string
  | GetCollections
  | CreateCollection string VectorParams
  | Upsert string "PointStruct list"
  | Search string vector int
  | Uuid4

text \<open>
  The state a handler runs in: the store behind the client, the calls made so far, how
  many UUIDs were drawn, and what was printed.
\<close>

record 's world =
  store :: 's
  calls :: "call list"
  uuid_drawn :: nat
  stdout :: "string list"

definition record_call :: "call \<Rightarrow> 's world \<Rightarrow> 's world" where
  "record_call c w = w\<lparr>calls := calls w @ [c]\<rparr>"

definition print :: "string \<Rightarrow> 's world \<Rightarrow> 's world" where
  "print line w = w\<lparr>stdout := stdout w @ [line]\<rparr>"

definition COLLECTION_NAME :: string where
  "COLLECTION_NAME = ''ai_docs_2026''"

definition EMBEDDING_MODEL :: string where
  "EMBEDDING_MODEL = ''text-embedding-3-small''"

section \<open>The generated server (\<^verbatim>\<open>rag_code\<close> of create\_rag.py)\<close>

subsection \<open>Startup\<close>

text \<open>\<^verbatim>\<open>vectors_config=VectorParams(size=1536, distance=Distance.COSINE)\<close>.\<close>

definition vectors_config :: VectorParams where
  "vectors_config = \<lparr>vp_size = 1536, vp_distance = COSINE\<rparr>"

text \<open>The body of the \<^verbatim>\<open>try\<close> block of \<^verbatim>\<open>startup_event\<close>.\<close>

definition startup_try :: "'s collaborators \<Rightarrow> 's world \<Rightarrow> (py_exception + unit) \<times> 's world" where
  "startup_try E w =
     (let w1 = record_call GetCollections w in
      case client_get_collections (client E) (store w1) of
        Inl e \<Rightarrow> (Inl e, w1)
      | Inr collections \<Rightarrow>
          if COLLECTION_NAME \<notin> set (map cd_name collections) then
            (let w2 = record_call (CreateCollection COLLECTION_NAME vectors_config) w1 in
             case client_create_collection (client E) COLLECTION_NAME vectors_config (store w2) of
               Inl e \<Rightarrow> (Inl e, w2)
             | Inr s \<Rightarrow> (Inr (), print ''Created collection'' (w2\<lparr>store := s\<rparr>)))
          else (Inr (), print ''Collection exists'' w1))"

text \<open>\<^verbatim>\<open>except Exception as e: print(f"Error: {e}")\<close> swallows whatever the body raised.\<close>

definition startup_event :: "'s collaborators \<Rightarrow> 's world \<Rightarrow> (py_exception + unit) \<times> 's world" where
  "startup_event E w =
     (case startup_try E w of
        (Inl e, w') \<Rightarrow> (Inr (), print (''Error: '' @ exception_str e) w')
      | (Inr u, w') \<Rightarrow> (Inr u, w'))"

subsection \<open>Embedding client\<close>

text \<open>
  \<^verbatim>\<open>response.data[0]\<close> raises IndexError on an empty list; that happens inside the
  \<^verbatim>\<open>try\<close>, so it too becomes the 500.
\<close>

definition get_embedding :: "'s collaborators \<Rightarrow> string \<Rightarrow> 's world \<Rightarrow> (py_exception + vector) \<times> 's world" where
  "get_embedding E txt w =
     (let w1 = record_call (EmbeddingAcreate EMBEDDING_MODEL txt) w in
      case openai_acreate E EMBEDDING_MODEL txt of
        Inl e \<Rightarrow> (Inl (HTTPException 500 ''Embedding failed''), w1)
      | Inr response \<Rightarrow>
          (case resp_data response of
             [] \<Rightarrow> (Inl (HTTPException 500 ''Embedding failed''), w1)
           | d # _ \<Rightarrow> (Inr d, w1)))"

subsection \<open>Handlers\<close>

text \<open>A JSON object with string values, keys in the order written.\<close>

type_synonym json_strings = "(string \<times> string) list"

definition root_generated :: json_strings where
  "root_generated = [(''system'', ''AI Core 2026 RAG''), (''status'', ''ready'')]"

definition health_generated :: json_strings where
  "health_generated = [(''status'', ''healthy''), (''services'', ''ok'')]"

record AddResponse =
  add_status :: string
  add_id :: string

definition add_document :: "'s collaborators \<Rightarrow> string \<Rightarrow> 's world \<Rightarrow> (py_exception + AddResponse) \<times> 's world" where
  "add_document E txt w =
     (if txt = [] then (Inl (HTTPException 400 ''Text required''), w)
      else
        case get_embedding E txt w of
          (Inl e, w1) \<Rightarrow> (Inl e, w1)
        | (Inr embedding, w1) \<Rightarrow>
            (let doc_id = uuid4 E (uuid_drawn w1);
                 w2 = record_call Uuid4 (w1\<lparr>uuid_drawn := Suc (uuid_drawn w1)\<rparr>);
                 point = \<lparr>point_id = doc_id, point_vector = embedding,
                          point_payload = [(''text'', txt)]\<rparr>;
                 w3 = record_call (Upsert COLLECTION_NAME [point]) w2 in
             case client_upsert (client E) COLLECTION_NAME [point] (store w3) of
               Inl e \<Rightarrow> (Inl e, w3)
             | Inr s \<Rightarrow> (Inr \<lparr>add_status = ''added'', add_id = doc_id\<rparr>, w3\<lparr>store := s\<rparr>)))"

record SearchResult =
  result_id :: string
  result_score :: real
  result_text :: string

record SearchResponse =
  search_query :: string
  search_results :: "SearchResult list"

text \<open>
  One item of the list comprehension: \<^verbatim>\<open>hit.payload["text"]\<close> raises KeyError when the
  key is absent; \<^verbatim>\<open>[:100]\<close> keeps the first 100 characters, or all of a shorter string.
\<close>

definition result_of_hit :: "ScoredPoint \<Rightarrow> py_exception + SearchResult" where
  "result_of_hit hit =
     (case map_of (hit_payload hit) ''text'' of
        None \<Rightarrow> Inl (KeyError ''text'')
      | Some t \<Rightarrow> Inr \<lparr>result_id = hit_id hit, result_score = hit_score hit,
                       result_text = take 100 t\<rparr>)"

text \<open>The comprehension over the hits, left to right; the first exception ends it.\<close>

fun results_of_hits :: "ScoredPoint list \<Rightarrow> py_exception + SearchResult list" where
  "results_of_hits [] = Inr []"
| "results_of_hits (hit # hits) =
     (case result_of_hit hit of
        Inl e \<Rightarrow> Inl e
      | Inr r \<Rightarrow> (case results_of_hits hits of Inl e \<Rightarrow> Inl e | Inr rs \<Rightarrow> Inr (r # rs)))"

definition search :: "'s collaborators \<Rightarrow> string \<Rightarrow> int \<Rightarrow> 's world \<Rightarrow> (py_exception + SearchResponse) \<times> 's world" where
  "search E query limit w =
     (if query = [] then (Inl (HTTPException 400 ''Query required''), w)
      else
        case get_embedding E query w of
          (Inl e, w1) \<Rightarrow> (Inl e, w1)
        | (Inr query_embedding, w1) \<Rightarrow>
            (let w2 = record_call (Search COLLECTION_NAME query_embedding limit) w1 in
             case client_search (client E) COLLECTION_NAME query_embedding limit (store w2) of
               Inl e \<Rightarrow> (Inl e, w2)
             | Inr results \<Rightarrow>
                 (case results_of_hits results of
                    Inl e \<Rightarrow> (Inl e, w2)
                  | Inr rs \<Rightarrow> (Inr \<lparr>search_query = query, search_results = rs\<rparr>, w2))))"

text \<open>\<^verbatim>\<open>limit: int = 3\<close>.\<close>

definition search_default :: "'s collaborators \<Rightarrow> string \<Rightarrow> 's world \<Rightarrow> (py_exception + SearchResponse) \<times> 's world" where
  "search_default E query w = search E query 3 w"

record EmbedResponse =
  embed_text :: string
  embed_dimensions :: int
  embed_sample :: vector

definition embed :: "'s collaborators \<Rightarrow> string \<Rightarrow> 's world \<Rightarrow> (py_exception + EmbedResponse) \<times> 's world" where
  "embed E txt w =
     (case get_embedding E txt w of
        (Inl e, w1) \<Rightarrow> (Inl e, w1)
      | (Inr embedding, w1) \<Rightarrow>
          (Inr \<lparr>embed_text = txt, embed_dimensions = int (length embedding),
                embed_sample = take 3 embedding\<rparr>, w1))"

text \<open>\<^verbatim>\<open>text: str = "Hello"\<close>.\<close>

definition embed_default :: "'s collaborators \<Rightarrow> 's world \<Rightarrow> (py_exception + EmbedResponse) \<times> 's world" where
  "embed_default E w = embed E ''Hello'' w"

section \<open>The committed server and the generator script\<close>

text \<open>
  A server as the two files define it: the routes registered on \<^verbatim>\<open>app\<close> (method and
  path, with the name of the handler function) and the bodies of the two handlers that
  both files have.
\<close>

datatype http_method = GET | POST

record server =
  routes :: "((http_method \<times> string) \<times> string) list"
  root_body :: json_strings
  health_body :: json_strings

text \<open>The string \<^verbatim>\<open>rag_code\<close> of create\_rag.py.\<close>

definition generated_server :: server where
  "generated_server =
     \<lparr>routes = [((GET, ''/''), ''root''), ((GET, ''/health''), ''health''),
                ((POST, ''/add_document''), ''add_document''),
                ((GET, ''/search''), ''search''), ((GET, ''/embed''), ''embed'')],
      root_body = root_generated,
      health_body = health_generated\<rparr>"

text \<open>The file src/api/server.py as committed.\<close>

definition root_committed :: json_strings where
  "root_committed = [(''system'', ''AI Core 2026''), (''status'', ''production'')]"

definition health_committed :: json_strings where
  "health_committed = [(''status'', ''healthy'')]"

definition committed_server :: server where
  "committed_server =
     \<lparr>routes = [((GET, ''/''), ''root''), ((GET, ''/health''), ''health'')],
      root_body = root_committed,
      health_body = health_committed\<rparr>"

text \<open>
  The script itself: it writes \<^verbatim>\<open>rag_code\<close> to src/api/server.py and the pinned
  requirements to requirements.txt, replacing what was there.
\<close>

datatype file_content = ServerSource server | TextLines "string list"

definition requirements :: "string list" where
  "requirements = [''fastapi==0.104.0'', ''uvicorn[standard]==0.24.0'',
                   ''qdrant-client==1.6.0'', ''openai==1.3.0'', ''numpy==1.24.0'']"

definition create_rag :: "(string \<rightharpoonup> file_content) \<Rightarrow> (string \<rightharpoonup> file_content)" where
  "create_rag fs =
     fs(''src/api/server.py'' \<mapsto> ServerSource generated_server,
        ''requirements.txt'' \<mapsto> TextLines requirements)"

definition committed_files :: "string \<rightharpoonup> file_content" where
  "committed_files = [''src/api/server.py'' \<mapsto> ServerSource committed_server]"

section \<open>Collaborators to run the handlers on\<close>

text \<open>
  The theorems below hold for every store client and every provider. To run the handlers
  on concrete inputs, one value of each parameter is fixed here: an in-memory stand-in
  for the store, in which collections are listed by name, creating a listed name is
  refused, an upsert checks the collection's dimension and replaces by id, and a search
  answers with at most \<open>k\<close> hits of a ranking kept ready in \<open>fs_ranking\<close>.
\<close>

record fake_store =
  fs_collections :: "(string \<times> VectorParams) list"
  fs_points :: "PointStruct list"
  fs_ranking :: "ScoredPoint list"

definition fake_get_collections :: "fake_store \<Rightarrow> py_exception + CollectionDescription list" where
  "fake_get_collections s = Inr (map (\<lambda>c. \<lparr>cd_name = fst c\<rparr>) (fs_collections s))"

definition fake_create_collection :: "string \<Rightarrow> VectorParams \<Rightarrow> fake_store \<Rightarrow> py_exception + fake_store" where
  "fake_create_collection n p s =
     (if n \<in> set (map fst (fs_collections s)) then Inl (ClientError ''Collection already exists'')
      else Inr (s\<lparr>fs_collections := fs_collections s @ [(n, p)]\<rparr>))"

definition fake_upsert :: "string \<Rightarrow> PointStruct list \<Rightarrow> fake_store \<Rightarrow> py_exception + fake_store" where
  "fake_upsert n pts s =
     (case map_of (fs_collections s) n of
        None \<Rightarrow> Inl (ClientError ''Collection not found'')
      | Some p \<Rightarrow>
          if list_ex (\<lambda>pt. int (length (point_vector pt)) \<noteq> vp_size p) pts
          then Inl (ClientError ''Vector dimension error'')
          else Inr (s\<lparr>fs_points :=
                 filter (\<lambda>q. point_id q \<notin> set (map point_id pts)) (fs_points s) @ pts\<rparr>))"

definition fake_search :: "string \<Rightarrow> vector \<Rightarrow> int \<Rightarrow> fake_store \<Rightarrow> py_exception + ScoredPoint list" where
  "fake_search n v k s =
     (if k < 1 then Inl (ClientError ''limit must be positive'')
      else Inr (take (nat k) (fs_ranking s)))"

definition fake_client :: "fake_store QdrantClient" where
  "fake_client = \<lparr>client_get_collections = fake_get_collections,
                  client_create_collection = fake_create_collection,
                  client_upsert = fake_upsert,
                  client_search = fake_search\<rparr>"

text \<open>A provider that rejects the empty input and answers anything else with 1536 components.\<close>

definition fake_acreate :: "string \<Rightarrow> string \<Rightarrow> py_exception + EmbeddingResponse" where
  "fake_acreate model txt =
     (if txt = [] then Inl (ClientError ''input must not be empty'')
      else Inr \<lparr>resp_data = [replicate 1536 (1 / 2)]\<rparr>)"

text \<open>A provider that is down; its message names a credential.\<close>

definition failing_acreate :: "string \<Rightarrow> string \<Rightarrow> py_exception + EmbeddingResponse" where
  "failing_acreate model txt = Inl (ClientError ''Rate limit reached for key sk-live-42'')"

definition fake_uuid4 :: "nat \<Rightarrow> string" where
  "fake_uuid4 n =
     (case n of 0 \<Rightarrow> ''3b241101-e2bb-4255-8caf-4136c566a962''
      | Suc _ \<Rightarrow> ''9f1c2d7e-58a0-4c3b-b6c1-0d2e4f6a8b10'')"

definition fake_collaborators :: "fake_store collaborators" where
  "fake_collaborators = \<lparr>openai_acreate = fake_acreate, client = fake_client, uuid4 = fake_uuid4\<rparr>"

definition failing_collaborators :: "fake_store collaborators" where
  "failing_collaborators =
     \<lparr>openai_acreate = failing_acreate, client = fake_client, uuid4 = fake_uuid4\<rparr>"

text \<open>A process that has made no call yet, in front of a given store.\<close>

definition world_of :: "'s \<Rightarrow> 's world" where
  "world_of s = \<lparr>store = s, calls = [], uuid_drawn = 0, stdout = []\<rparr>"

definition empty_store :: fake_store where
  "empty_store = \<lparr>fs_collections = [], fs_points = [], fs_ranking = []\<rparr>"

text \<open>A store whose collection holds three documents, one longer than 100 characters.\<close>

definition ranked_store :: fake_store where
  "ranked_store =
     \<lparr>fs_collections = [(''ai_docs_2026'', \<lparr>vp_size = 1536, vp_distance = COSINE\<rparr>)],
      fs_points = [],
      fs_ranking =
        [\<lparr>hit_id = ''a'', hit_score = 0.9, hit_payload = [(''text'', ''alpha'')]\<rparr>,
         \<lparr>hit_id = ''b'', hit_score = 0.5,
           hit_payload = [(''text'', replicate 130 CHR ''x'')]\<rparr>,
         \<lparr>hit_id = ''c'', hit_score = 0.1, hit_payload = [(''text'', ''gamma'')]\<rparr>]\<rparr>"

text \<open>A store where the name is taken by a collection of another dimension and metric.\<close>

definition mismatched_store :: fake_store where
  "mismatched_store =
     \<lparr>fs_collections = [(''ai_docs_2026'', \<lparr>vp_size = 768, vp_distance = EUCLID\<rparr>)],
      fs_points = [], fs_ranking = []\<rparr>"





text \<open>What a result of \<^verbatim>\<open>search\<close> owes to the hit it was made from.\<close>

definition snippet_of :: "ScoredPoint \<Rightarrow> SearchResult \<Rightarrow> bool" where
  "snippet_of h r =
     (result_id r = hit_id h \<and> result_score r = hit_score h \<and>
      (\<exists>t. map_of (hit_payload h) ''text'' = Some t \<and> result_text r = take 100 t))"

section \<open>Auxiliary facts\<close>

lemma store_record_call [simp]: "store (record_call c w) = store w"
  by (simp add: record_call_def)

lemma get_embedding_success:
  assumes "openai_acreate E EMBEDDING_MODEL txt = Inr r" and "resp_data r = v # vs"
  shows "get_embedding E txt w = (Inr v, record_call (EmbeddingAcreate EMBEDDING_MODEL txt) w)"
  using assms by (simp add: get_embedding_def)

lemma get_embedding_failure:
  assumes "openai_acreate E EMBEDDING_MODEL txt = Inl e"
  shows "get_embedding E txt w =
           (Inl (HTTPException 500 ''Embedding failed''),
            record_call (EmbeddingAcreate EMBEDDING_MODEL txt) w)"
  using assms by (simp add: get_embedding_def)

lemma result_of_hit_snippet: "result_of_hit h = Inr r \<Longrightarrow> snippet_of h r"
  by (auto simp: result_of_hit_def snippet_of_def split: option.splits)

lemma results_of_hits_all_snippets:
  "results_of_hits hits = Inr rs \<Longrightarrow> list_all2 snippet_of hits rs"
proof (induction hits arbitrary: rs)
  case Nil
  then show ?case by simp
next
  case (Cons h hs)
  then show ?case
    by (auto split: sum.splits dest: result_of_hit_snippet)
qed




text \<open>A response of \<^verbatim>\<open>search\<close> comes from one answer of the provider and one of the store.\<close>

lemma search_success:
  assumes "fst (search E q k w) = Inr resp"
  shows "\<exists>r v vs hits.
           q \<noteq> [] \<and> openai_acreate E EMBEDDING_MODEL q = Inr r \<and> resp_data r = v # vs \<and>
           client_search (client E) COLLECTION_NAME v k (store w) = Inr hits \<and>
           results_of_hits hits = Inr (search_results resp) \<and> search_query resp = q"
  using assms
  by (auto simp: search_def get_embedding_def Let_def
           split: if_splits sum.splits list.splits prod.splits)

lemma startup_event_never_raises: "fst (startup_event E w) = Inr ()"
  by (simp add: startup_event_def split: prod.splits sum.splits)

lemma startup_event_existing:
  assumes "client_get_collections (client E) (store w) = Inr cs"
      and "COLLECTION_NAME \<in> set (map cd_name cs)"
  shows "startup_event E w = (Inr (), print ''Collection exists'' (record_call GetCollections w))"
  using assms by (simp add: startup_event_def startup_try_def)

section \<open>Validation of empty input\<close>

text \<open>
  C1. For the empty string, \<^verbatim>\<open>add_document\<close> and \<^verbatim>\<open>search\<close> each raise the 400
  before any collaborator is called: the world they return is the world they were given,
  so no embedding call, no upsert and no store search was made, whatever the
  collaborators and whatever the limit.
\<close>

theorem empty_input_rejected_before_any_call:
  "add_document E [] w = (Inl (HTTPException 400 ''Text required''), w) \<and>
   search E [] k w = (Inl (HTTPException 400 ''Query required''), w) \<and>
   calls (snd (add_document E [] w)) = calls w \<and>
   calls (snd (search E [] k w)) = calls w"
  by (simp add: add_document_def search_def)

section \<open>Search\<close>




text \<open>
  C3. Whenever \<^verbatim>\<open>search\<close> returns a response, its results pair off with the hits the
  store returned, and the text of each result is the first 100 characters of the text
  stored with its hit: the whole text, unchanged, when that is shorter than 100
  characters, and exactly 100 characters otherwise.
\<close>

theorem search_snippet_first_100:
  assumes "fst (search E q k w) = Inr resp"
  shows "\<exists>v hits. client_search (client E) COLLECTION_NAME v k (store w) = Inr hits \<and>
           list_all2 (\<lambda>h r. \<exists>t. map_of (hit_payload h) ''text'' = Some t \<and>
                        result_text r = take 100 t \<and>
                        (if length t < 100 then result_text r = t
                         else length (result_text r) = 100)) hits (search_results resp)"
proof -
  from search_success [OF assms] obtain v hits where
    found: "client_search (client E) COLLECTION_NAME v k (store w) = Inr hits" and
    rs: "results_of_hits hits = Inr (search_results resp)"
    by blast
  have "list_all2 snippet_of hits (search_results resp)"
    using rs by (rule results_of_hits_all_snippets)
  then have "list_all2 (\<lambda>h r. \<exists>t. map_of (hit_payload h) ''text'' = Some t \<and>
                        result_text r = take 100 t \<and>
                        (if length t < 100 then result_text r = t
                         else length (result_text r) = 100)) hits (search_results resp)"
    by (rule list_all2_mono) (auto simp: snippet_of_def)
  with found show ?thesis by blast
qed

theorem search_snippet_first_100_witness:
  "\<exists>v hits. client_search (client fake_collaborators) COLLECTION_NAME v 2
               (store (world_of ranked_store)) = Inr hits \<and>
     list_all2 (\<lambda>h r. \<exists>t. map_of (hit_payload h) ''text'' = Some t \<and>
                  result_text r = take 100 t \<and>
                  (if length t < 100 then result_text r = t
                   else length (result_text r) = 100)) hits
       [\<lparr>result_id = ''a'', result_score = 0.9, result_text = ''alpha''\<rparr>,
        \<lparr>result_id = ''b'', result_score = 0.5, result_text = replicate 100 CHR ''x''\<rparr>]"
proof -
  have run: "fst (search fake_collaborators ''what'' 2 (world_of ranked_store)) =
      Inr \<lparr>search_query = ''what'',
           search_results =
             [\<lparr>result_id = ''a'', result_score = 0.9, result_text = ''alpha''\<rparr>,
              \<lparr>result_id = ''b'', result_score = 0.5,
                result_text = replicate 100 CHR ''x''\<rparr>]\<rparr>"
    by (simp add: search_def get_embedding_def fake_collaborators_def fake_acreate_def
                  fake_client_def fake_search_def world_of_def ranked_store_def
                  result_of_hit_def Let_def)
  show ?thesis using search_snippet_first_100 [OF run] by simp
qed

section \<open>The diagnostic endpoint\<close>




section \<open>Adding a document\<close>

text \<open>
  C5. For every non-empty text on which the provider answers with a vector and the store
  accepts the upsert, \<^verbatim>\<open>add_document\<close> draws the id from \<^verbatim>\<open>uuid4\<close> at that moment (the
  next value of the generator; the request carries no id), upserts exactly one point
  with that id, the vector and the payload \<open>{text}\<close> into the collection, and returns
  \<open>{status: "added", id}\<close> with the same id.
\<close>

theorem add_document_upserts_generated_id:
  assumes nonempty: "txt \<noteq> []"
      and provider: "openai_acreate E EMBEDDING_MODEL txt = Inr r" "resp_data r = v # vs"
      and stored: "client_upsert (client E) COLLECTION_NAME
                     [\<lparr>point_id = uuid4 E (uuid_drawn w), point_vector = v,
                       point_payload = [(''text'', txt)]\<rparr>] (store w) = Inr s"
  shows "add_document E txt w =
           (Inr \<lparr>add_status = ''added'', add_id = uuid4 E (uuid_drawn w)\<rparr>,
            w\<lparr>store := s,
              calls := calls w @
                [EmbeddingAcreate EMBEDDING_MODEL txt, Uuid4,
                 Upsert COLLECTION_NAME
                   [\<lparr>point_id = uuid4 E (uuid_drawn w), point_vector = v,
                     point_payload = [(''text'', txt)]\<rparr>]],
              uuid_drawn := Suc (uuid_drawn w)\<rparr>)"
  using nonempty stored
  by (simp add: add_document_def get_embedding_success [OF provider] record_call_def Let_def)

theorem add_document_upserts_generated_id_witness:
  "add_document fake_collaborators ''hello world'' (world_of ranked_store) =
     (Inr \<lparr>add_status = ''added'', add_id = ''3b241101-e2bb-4255-8caf-4136c566a962''\<rparr>,
      \<lparr>store = ranked_store\<lparr>fs_points :=
           [\<lparr>point_id = ''3b241101-e2bb-4255-8caf-4136c566a962'',
             point_vector = replicate 1536 (1 / 2),
             point_payload = [(''text'', ''hello world'')]\<rparr>]\<rparr>,
       calls =
         [EmbeddingAcreate ''text-embedding-3-small'' ''hello world'', Uuid4,
          Upsert ''ai_docs_2026''
            [\<lparr>point_id = ''3b241101-e2bb-4255-8caf-4136c566a962'',
              point_vector = replicate 1536 (1 / 2),
              point_payload = [(''text'', ''hello world'')]\<rparr>]],
       uuid_drawn = 1, stdout = []\<rparr>)"
proof -
  have nonempty: "''hello world'' \<noteq> []" by simp
  have provider: "openai_acreate fake_collaborators EMBEDDING_MODEL ''hello world'' =
      Inr \<lparr>resp_data = [replicate 1536 (1 / 2)]\<rparr>"
    by (simp add: fake_collaborators_def fake_acreate_def)
  have first: "resp_data \<lparr>resp_data = [replicate 1536 (1 / 2)]\<rparr> = replicate 1536 (1 / 2) # []"
    by simp
  have stored: "client_upsert (client fake_collaborators) COLLECTION_NAME
      [\<lparr>point_id = uuid4 fake_collaborators (uuid_drawn (world_of ranked_store)),
        point_vector = replicate 1536 (1 / 2),
        point_payload = [(''text'', ''hello world'')]\<rparr>] (store (world_of ranked_store)) =
      Inr (ranked_store\<lparr>fs_points :=
           [\<lparr>point_id = ''3b241101-e2bb-4255-8caf-4136c566a962'',
             point_vector = replicate 1536 (1 / 2),
             point_payload = [(''text'', ''hello world'')]\<rparr>]\<rparr>)"
    by (simp add: fake_collaborators_def fake_client_def fake_upsert_def fake_uuid4_def
                  world_of_def ranked_store_def COLLECTION_NAME_def)
  show ?thesis
    using add_document_upserts_generated_id [OF nonempty provider first stored]
    by (simp add: world_of_def fake_collaborators_def fake_uuid4_def COLLECTION_NAME_def
                  EMBEDDING_MODEL_def)
qed

section \<open>Startup\<close>

text \<open>
  C6. \<^verbatim>\<open>startup_event\<close>, the collection bootstrap, run twice in a row: neither run raises,
  and once the store lists the collection after the first run, the second run makes the
  one call \<^verbatim>\<open>get_collections\<close>, prints that the collection exists and leaves the store
  as it found it: no second \<^verbatim>\<open>create_collection\<close>, hence no duplicate.
\<close>

theorem startup_event_idempotent:
  assumes "client_get_collections (client E) (store (snd (startup_event E w))) = Inr cs"
      and "COLLECTION_NAME \<in> set (map cd_name cs)"
  shows "fst (startup_event E w) = Inr () \<and>
         startup_event E (snd (startup_event E w)) =
           (Inr (), print ''Collection exists''
                      (record_call GetCollections (snd (startup_event E w)))) \<and>
         store (snd (startup_event E (snd (startup_event E w)))) =
           store (snd (startup_event E w))"
  using startup_event_existing [OF assms] startup_event_never_raises [of E w]
  by (simp add: print_def)

theorem startup_event_idempotent_witness:
  "startup_event fake_collaborators (world_of empty_store) =
     (Inr (),
      \<lparr>store = \<lparr>fs_collections = [(''ai_docs_2026'', \<lparr>vp_size = 1536, vp_distance = COSINE\<rparr>)],
                 fs_points = [], fs_ranking = []\<rparr>,
       calls = [GetCollections,
                CreateCollection ''ai_docs_2026'' \<lparr>vp_size = 1536, vp_distance = COSINE\<rparr>],
       uuid_drawn = 0, stdout = [''Created collection'']\<rparr>) \<and>
   startup_event fake_collaborators (snd (startup_event fake_collaborators (world_of empty_store))) =
     (Inr (),
      \<lparr>store = \<lparr>fs_collections = [(''ai_docs_2026'', \<lparr>vp_size = 1536, vp_distance = COSINE\<rparr>)],
                 fs_points = [], fs_ranking = []\<rparr>,
       calls = [GetCollections,
                CreateCollection ''ai_docs_2026'' \<lparr>vp_size = 1536, vp_distance = COSINE\<rparr>,
                GetCollections],
       uuid_drawn = 0, stdout = [''Created collection'', ''Collection exists'']\<rparr>)"
proof -
  have first: "startup_event fake_collaborators (world_of empty_store) =
     (Inr (),
      \<lparr>store = \<lparr>fs_collections = [(''ai_docs_2026'', \<lparr>vp_size = 1536, vp_distance = COSINE\<rparr>)],
                 fs_points = [], fs_ranking = []\<rparr>,
       calls = [GetCollections,
                CreateCollection ''ai_docs_2026'' \<lparr>vp_size = 1536, vp_distance = COSINE\<rparr>],
       uuid_drawn = 0, stdout = [''Created collection'']\<rparr>)"
    by (simp add: startup_event_def startup_try_def fake_collaborators_def fake_client_def
                  fake_get_collections_def fake_create_collection_def world_of_def
                  empty_store_def record_call_def print_def vectors_config_def
                  COLLECTION_NAME_def Let_def)
  have listed: "client_get_collections (client fake_collaborators)
      (store (snd (startup_event fake_collaborators (world_of empty_store)))) =
      Inr [\<lparr>cd_name = ''ai_docs_2026''\<rparr>]"
    unfolding first
    by (simp add: fake_collaborators_def fake_client_def fake_get_collections_def)
  have present: "COLLECTION_NAME \<in> set (map cd_name [\<lparr>cd_name = ''ai_docs_2026''\<rparr>])"
    by (simp add: COLLECTION_NAME_def)
  show ?thesis
    using startup_event_idempotent [OF listed present]
    by (simp add: first record_call_def print_def)
qed

text \<open>
  C7, as amended. When the store already lists a collection of the configured name,
  \<^verbatim>\<open>startup_event\<close> raises nothing, calls \<^verbatim>\<open>get_collections\<close> and nothing else, prints
  that the collection exists and leaves the store unchanged. The listing carries names
  only, so this holds whatever the dimension and metric of the collection found.
\<close>

theorem startup_event_keeps_existing_collection:
  assumes "client_get_collections (client E) (store w) = Inr cs"
      and "COLLECTION_NAME \<in> set (map cd_name cs)"
  shows "startup_event E w =
           (Inr (), w\<lparr>calls := calls w @ [GetCollections],
                      stdout := stdout w @ [''Collection exists'']\<rparr>)"
  using startup_event_existing [OF assms] by (simp add: print_def record_call_def)

theorem startup_event_keeps_existing_collection_witness:
  "startup_event fake_collaborators (world_of mismatched_store) =
     (Inr (), (world_of mismatched_store)
                \<lparr>calls := calls (world_of mismatched_store) @ [GetCollections],
                 stdout := stdout (world_of mismatched_store) @ [''Collection exists'']\<rparr>)"
proof (rule startup_event_keeps_existing_collection)
  show "client_get_collections (client fake_collaborators) (store (world_of mismatched_store)) =
          Inr [\<lparr>cd_name = ''ai_docs_2026''\<rparr>]"
    by (simp add: fake_collaborators_def fake_client_def fake_get_collections_def
                  world_of_def mismatched_store_def)
  show "COLLECTION_NAME \<in> set (map cd_name [\<lparr>cd_name = ''ai_docs_2026''\<rparr>])"
    by (simp add: COLLECTION_NAME_def)
qed

text \<open>
  The claim C7 as written fails: in front of a store whose collection of that name has
  768 dimensions and the Euclidean metric, startup returns normally, having raised no
  exception and changed nothing.
\<close>

theorem schema_mismatch_not_detected_counterexample:
  "map_of (fs_collections mismatched_store) COLLECTION_NAME =
     Some \<lparr>vp_size = 768, vp_distance = EUCLID\<rparr> \<and>
   \<lparr>vp_size = 768, vp_distance = EUCLID\<rparr> \<noteq> vectors_config \<and>
   startup_event fake_collaborators (world_of mismatched_store) =
     (Inr (), \<lparr>store = mismatched_store, calls = [GetCollections], uuid_drawn = 0,
               stdout = [''Collection exists'']\<rparr>)"
  by (simp add: startup_event_def startup_try_def fake_collaborators_def fake_client_def
                fake_get_collections_def world_of_def mismatched_store_def record_call_def
                print_def vectors_config_def COLLECTION_NAME_def Let_def)

section \<open>Failure of the embedding provider\<close>

text \<open>
  C8. For every input on which the call to the provider raises, each handler that makes
  the call answers with the HTTP exception of status 500 and the fixed detail
  "Embedding failed", in which the provider's exception does not occur; nothing but the
  provider call was made. (On the empty string \<^verbatim>\<open>add_document\<close> and \<^verbatim>\<open>search\<close> do not
  reach the provider and answer 400.)
\<close>

theorem embedding_failure_is_generic_500:
  assumes "openai_acreate E EMBEDDING_MODEL txt = Inl e"
  shows "embed E txt w =
           (Inl (HTTPException 500 ''Embedding failed''),
            record_call (EmbeddingAcreate EMBEDDING_MODEL txt) w) \<and>
         add_document E txt w =
           (if txt = [] then (Inl (HTTPException 400 ''Text required''), w)
            else (Inl (HTTPException 500 ''Embedding failed''),
                  record_call (EmbeddingAcreate EMBEDDING_MODEL txt) w)) \<and>
         search E txt k w =
           (if txt = [] then (Inl (HTTPException 400 ''Query required''), w)
            else (Inl (HTTPException 500 ''Embedding failed''),
                  record_call (EmbeddingAcreate EMBEDDING_MODEL txt) w))"
  by (simp add: embed_def add_document_def search_def get_embedding_failure [OF assms])

theorem embedding_failure_is_generic_500_witness:
  "fst (embed failing_collaborators ''hello'' (world_of ranked_store)) =
     Inl (HTTPException 500 ''Embedding failed'') \<and>
   fst (add_document failing_collaborators ''hello'' (world_of ranked_store)) =
     Inl (HTTPException 500 ''Embedding failed'') \<and>
   fst (search failing_collaborators ''hello'' 3 (world_of ranked_store)) =
     Inl (HTTPException 500 ''Embedding failed'')"
proof -
  have down: "openai_acreate failing_collaborators EMBEDDING_MODEL ''hello'' =
      Inl (ClientError ''Rate limit reached for key sk-live-42'')"
    by (simp add: failing_collaborators_def failing_acreate_def)
  show ?thesis
    using embedding_failure_is_generic_500 [OF down, of "world_of ranked_store" 3]
    by simp
qed

section \<open>Text passed to the provider\<close>

text \<open>
  C9. The claim is that no handler calls the provider with the empty string. The handler
  \<^verbatim>\<open>embed\<close> does: it has no check of its own, so on the empty string its one call to
  the provider carries the empty string, whatever the collaborators.
\<close>

theorem embed_calls_provider_with_empty_text:
  "calls (snd (embed E [] w)) = calls w @ [EmbeddingAcreate EMBEDDING_MODEL []]"
  by (simp add: embed_def get_embedding_def record_call_def Let_def
           split: sum.splits list.splits)

section \<open>The two servers\<close>

text \<open>
  C10. The committed server registers GET / and GET /health and nothing else: it has no
  route for add\_document, search or embed. Its root answers
  \<open>{system: "AI Core 2026", status: "production"}\<close> and its health answers
  \<open>{status: "healthy"}\<close> with no field \<open>services\<close>, while the generated server answers
  \<open>{system: "AI Core 2026 RAG", status: "ready"}\<close> and
  \<open>{status: "healthy", services: "ok"}\<close>. The two differ, and running the generator
  over the committed files puts the generated server in the committed one's place.
\<close>

theorem committed_server_is_not_generated_server:
  "map fst (routes committed_server) = [(GET, ''/''), (GET, ''/health'')] \<and>
   map_of (routes committed_server) (POST, ''/add_document'') = None \<and>
   map_of (routes committed_server) (GET, ''/search'') = None \<and>
   map_of (routes committed_server) (GET, ''/embed'') = None \<and>
   root_body committed_server = [(''system'', ''AI Core 2026''), (''status'', ''production'')] \<and>
   health_body committed_server = [(''status'', ''healthy'')] \<and>
   map_of (health_body committed_server) ''services'' = None \<and>
   root_body generated_server = [(''system'', ''AI Core 2026 RAG''), (''status'', ''ready'')] \<and>
   health_body generated_server = [(''status'', ''healthy''), (''services'', ''ok'')] \<and>
   map_of (routes generated_server) (POST, ''/add_document'') = Some ''add_document'' \<and>
   map_of (routes generated_server) (GET, ''/search'') = Some ''search'' \<and>
   map_of (routes generated_server) (GET, ''/embed'') = Some ''embed'' \<and>
   committed_server \<noteq> generated_server \<and>
   committed_files ''src/api/server.py'' = Some (ServerSource committed_server) \<and>
   create_rag committed_files ''src/api/server.py'' = Some (ServerSource generated_server)"
  by (simp add: committed_server_def generated_server_def root_committed_def
                health_committed_def root_generated_def health_generated_def
                committed_files_def create_rag_def)

end
